theory Spec2Isabelle
  imports Main
begin

section \<open>Input events\<close>

text \<open>
  The hook of \<^verbatim>\<open>src/index.ts\<close> listens on the window for six event types. A mouse
  event carries its viewport coordinates \<^verbatim>\<open>x\<close>, \<^verbatim>\<open>y\<close>; a touch event carries the lists
  \<^verbatim>\<open>touches\<close> (contacts still active) and \<^verbatim>\<open>changedTouches\<close>. Both carry the class
  name of their target element. Coordinates are modelled as integers.
\<close>

record touch_point =
  clientX :: int
  clientY :: int

datatype mouse_type = mousedown | mouseup | mousemove

datatype touch_type = touchstart | touchend | touchmove

datatype event =
    MouseEvent mouse_type int int string
  | TouchEvent touch_type "touch_point list" "touch_point list" string

fun event_type :: "event \<Rightarrow> string" where
  "event_type (MouseEvent mousedown x y c) = ''mousedown''"
| "event_type (MouseEvent mouseup x y c) = ''mouseup''"
| "event_type (MouseEvent mousemove x y c) = ''mousemove''"
| "event_type (TouchEvent touchstart ts cs c) = ''touchstart''"
| "event_type (TouchEvent touchend ts cs c) = ''touchend''"
| "event_type (TouchEvent touchmove ts cs c) = ''touchmove''"

fun className :: "event \<Rightarrow> string" where
  "className (MouseEvent t x y c) = c"
| "className (TouchEvent t ts cs c) = c"

text \<open>
  Property reads. A property the object does not have reads as \<^verbatim>\<open>undefined\<close>, here
  \<open>None\<close>; so does index 0 of an empty list.
\<close>

fun touches :: "event \<Rightarrow> touch_point list option" where
  "touches (TouchEvent t ts cs c) = Some ts"
| "touches (MouseEvent t x y c) = None"

fun changedTouches :: "event \<Rightarrow> touch_point list option" where
  "changedTouches (TouchEvent t ts cs c) = Some cs"
| "changedTouches (MouseEvent t x y c) = None"

fun event_y :: "event \<Rightarrow> int option" where
  "event_y (MouseEvent t x y c) = Some y"
| "event_y (TouchEvent t ts cs c) = None"

fun event_x :: "event \<Rightarrow> int option" where
  "event_x (MouseEvent t x y c) = Some x"
| "event_x (TouchEvent t ts cs c) = None"

fun item0 :: "'a list \<Rightarrow> 'a option" where
  "item0 [] = None"
| "item0 (v # vs) = Some v"

text \<open>\<^verbatim>\<open>s.includes(t)\<close>: the string \<open>t\<close> occurs in \<open>s\<close>.\<close>

primrec starts_with :: "string \<Rightarrow> string \<Rightarrow> bool" where
  "starts_with s [] = True"
| "starts_with s (c # cs) = (case s of [] \<Rightarrow> False | d # ds \<Rightarrow> d = c \<and> starts_with ds cs)"

primrec str_includes :: "string \<Rightarrow> string \<Rightarrow> bool" where
  "str_includes [] t = (t = [])"
| "str_includes (d # ds) t = (starts_with (d # ds) t \<or> str_includes ds t)"

section \<open>Coordinate extraction\<close>

text \<open>
  \<^verbatim>\<open>touch.clientY\<close> on an undefined \<^verbatim>\<open>touch\<close> (both lists empty) throws a TypeError,
  and so does indexing a list the event does not have. The \<^verbatim>\<open>else\<close> branch of a
  touch event would read a coordinate the event does not have; no event of the six
  types reaches it (lemma \<open>touch_branch\<close> below), and the model ends it with the
  same error value.
\<close>

datatype error = TypeError

definition first_touch :: "event \<Rightarrow> error + touch_point" where
  "first_touch e =
     (case touches e of
        None \<Rightarrow> Inl TypeError
      | Some ts \<Rightarrow>
          (case item0 ts of
             Some t \<Rightarrow> Inr t
           | None \<Rightarrow>
               (case changedTouches e of
                  None \<Rightarrow> Inl TypeError
                | Some cs \<Rightarrow>
                    (case item0 cs of
                       Some t \<Rightarrow> Inr t
                     | None \<Rightarrow> Inl TypeError))))"

definition getY :: "event \<Rightarrow> error + int" where
  "getY e =
     (if str_includes (event_type e) ''touch'' then
        (case first_touch e of
           Inl err \<Rightarrow> Inl err
         | Inr t \<Rightarrow> Inr (clientY t))
      else
        (case event_y e of
           Some v \<Rightarrow> Inr v
         | None \<Rightarrow> Inl TypeError))"

definition getX :: "event \<Rightarrow> error + int" where
  "getX e =
     (if str_includes (event_type e) ''touch'' then
        (case first_touch e of
           Inl err \<Rightarrow> Inl err
         | Inr t \<Rightarrow> Inr (clientX t))
      else
        (case event_x e of
           Some v \<Rightarrow> Inr v
         | None \<Rightarrow> Inl TypeError))"

section \<open>The state of the hook\<close>

text \<open>The eight \<^verbatim>\<open>useState\<close> cells; \<^verbatim>\<open>null\<close> is \<open>None\<close>.\<close>

record state =
  lastY :: int
  lastX :: int
  deltaY :: int
  deltaX :: int
  goingDown :: "bool option"
  goingRight :: "bool option"
  isMouseDown :: bool
  touchedElement :: "string option"

definition initial_state :: state where
  "initial_state =
     \<lparr>lastY = 0, lastX = 0, deltaY = 0, deltaX = 0, goingDown = None,
      goingRight = None, isMouseDown = False, touchedElement = None\<rparr>"

datatype mode = touch | mouse | both

definition isMobile :: "mode \<Rightarrow> bool" where
  "isMobile m = (m = touch \<or> m = both)"

definition isDesktop :: "mode \<Rightarrow> bool" where
  "isDesktop m = (m = mouse \<or> m = both)"

section \<open>The three handlers\<close>

text \<open>
  A handler ends by returning or by throwing; the setters it called before a throw
  have taken effect either way, so both outcomes carry the state. The handlers are
  closures of the effect: the variables they read (\<^verbatim>\<open>isMouseDown\<close>, \<^verbatim>\<open>lastY\<close>,
  \<^verbatim>\<open>lastX\<close>, \<^verbatim>\<open>deltaY\<close>, \<^verbatim>\<open>deltaX\<close> in \<^verbatim>\<open>onMouseMove\<close>) are those of the render in
  which the effect last ran, the argument \<open>c\<close>; the setters write the current
  state \<open>s\<close>.
\<close>

datatype outcome = Returned state | Thrown error state

fun state_of :: "outcome \<Rightarrow> state" where
  "state_of (Returned s) = s"
| "state_of (Thrown err s) = s"

definition onMouseDown :: "event \<Rightarrow> state \<Rightarrow> outcome" where
  "onMouseDown e s =
     (let s1 = s\<lparr>isMouseDown := True\<rparr> in
      case getY e of
        Inl err \<Rightarrow> Thrown err s1
      | Inr y \<Rightarrow>
          (let s2 = s1\<lparr>lastY := y\<rparr> in
           case getX e of
             Inl err \<Rightarrow> Thrown err s2
           | Inr x \<Rightarrow>
               Returned (s2\<lparr>lastX := x, touchedElement := Some (className e)\<rparr>)))"

definition onMouseMove :: "state \<Rightarrow> event \<Rightarrow> state \<Rightarrow> outcome" where
  "onMouseMove c e s =
     (if isMouseDown c then
        (case getY e of
           Inl err \<Rightarrow> Thrown err s
         | Inr y \<Rightarrow>
             (let dY = y - lastY c in
              case getX e of
                Inl err \<Rightarrow> Thrown err s
              | Inr x \<Rightarrow>
                  (let dX = x - lastX c in
                   Returned
                     (s\<lparr>goingDown := Some (dY > deltaY c),
                        goingRight := Some (dX > deltaX c),
                        deltaY := dY,
                        deltaX := dX\<rparr>))))
      else Returned s)"

definition onMouseUp :: "state \<Rightarrow> outcome" where
  "onMouseUp s =
     Returned
       (s\<lparr>isMouseDown := False, deltaY := 0, deltaX := 0,
          goingDown := None, goingRight := None\<rparr>)"

section \<open>The effect: listeners and their re-subscription\<close>

datatype listener = OnMouseDown | OnMouseUp | OnMouseMove

definition addEventListener :: "mode \<Rightarrow> (string \<times> listener) list" where
  "addEventListener m =
     (if isDesktop m then
        [(''mousedown'', OnMouseDown), (''mouseup'', OnMouseUp),
         (''mousemove'', OnMouseMove)]
      else []) @
     (if isMobile m then
        [(''touchstart'', OnMouseDown), (''touchend'', OnMouseUp),
         (''touchmove'', OnMouseMove)]
      else [])"

definition listeners_for :: "mode \<Rightarrow> event \<Rightarrow> listener list" where
  "listeners_for m e =
     map snd (filter (\<lambda>p. fst p = event_type e) (addEventListener m))"

fun call :: "listener \<Rightarrow> state \<Rightarrow> event \<Rightarrow> state \<Rightarrow> outcome" where
  "call OnMouseDown c e s = onMouseDown e s"
| "call OnMouseUp c e s = onMouseUp s"
| "call OnMouseMove c e s = onMouseMove c e s"

text \<open>
  A mounted hook: the current values of the state cells and the values the
  registered handlers closed over. After an event has changed the state the
  component renders again, and the effect runs again (removing the old listeners,
  adding new ones that close over the new values) exactly when one of its
  dependencies \<^verbatim>\<open>[isMouseDown, lastY, deltaY, deltaX]\<close> has changed. Each event is
  taken to be handled, rendered and re-subscribed before the next one arrives.
\<close>

record hook =
  current :: state
  closure :: state

definition deps :: "state \<Rightarrow> bool \<times> int \<times> int \<times> int" where
  "deps s = (isMouseDown s, lastY s, deltaY s, deltaX s)"

definition render :: "hook \<Rightarrow> state \<Rightarrow> hook" where
  "render h s =
     \<lparr>current = s,
      closure = (if deps s = deps (closure h) then closure h else s)\<rparr>"

definition dispatchEvent :: "mode \<Rightarrow> hook \<Rightarrow> event \<Rightarrow> hook" where
  "dispatchEvent m h e =
     (case listeners_for m e of
        [] \<Rightarrow> h
      | ls \<Rightarrow>
          render h
            (foldl (\<lambda>s l. state_of (call l (closure h) e s)) (current h) ls))"

definition useMouseDelta :: hook where
  "useMouseDelta = \<lparr>current = initial_state, closure = initial_state\<rparr>"

definition returned ::
  "hook \<Rightarrow> int \<times> int \<times> bool \<times> string option \<times> bool option \<times> bool option" where
  "returned h =
     (deltaY (current h), deltaX (current h), isMouseDown (current h),
      touchedElement (current h), goingDown (current h), goingRight (current h))"

definition run :: "mode \<Rightarrow> event list \<Rightarrow> hook" where
  "run m es = foldl (dispatchEvent m) useMouseDelta es"

section \<open>Vocabulary of the statements\<close>

text \<open>
  The handlers' view is in step with the state when the dependencies of the effect
  have the values the handlers closed over.
\<close>

definition synced :: "hook \<Rightarrow> bool" where
  "synced h = (deps (closure h) = deps (current h))"

definition is_move :: "event \<Rightarrow> bool" where
  "is_move e = (event_type e = ''mousemove'' \<or> event_type e = ''touchmove'')"

definition is_touch :: "event \<Rightarrow> bool" where
  "is_touch e = str_includes (event_type e) ''touch''"

definition is_mouse :: "event \<Rightarrow> bool" where
  "is_mouse e = (\<not> str_includes (event_type e) ''touch'')"

text \<open>The values the deltas and trend flags have at rest.\<close>

definition at_rest :: "state \<Rightarrow> bool" where
  "at_rest s = (deltaX s = 0 \<and> deltaY s = 0 \<and> goingDown s = None \<and> goingRight s = None)"

section \<open>Basic facts\<close>

lemma touch_branch:
  "str_includes (event_type e) ''touch'' =
     (case e of TouchEvent t ts cs c \<Rightarrow> True | MouseEvent t x y c \<Rightarrow> False)"
proof (cases e)
  case (MouseEvent t x y c)
  then show ?thesis by (cases t) simp_all
next
  case (TouchEvent t ts cs c)
  then show ?thesis by (cases t) simp_all
qed

lemma getY_mouse: "getY (MouseEvent t x y c) = Inr y"
  by (simp add: getY_def touch_branch)

lemma getX_mouse: "getX (MouseEvent t x y c) = Inr x"
  by (simp add: getX_def touch_branch)

lemma getY_touch:
  "getY (TouchEvent t ts cs c) =
     (case ts of v # vs \<Rightarrow> Inr (clientY v)
      | [] \<Rightarrow> (case cs of v # vs \<Rightarrow> Inr (clientY v) | [] \<Rightarrow> Inl TypeError))"
  by (simp add: getY_def touch_branch first_touch_def split: list.splits)

lemma getX_touch:
  "getX (TouchEvent t ts cs c) =
     (case ts of v # vs \<Rightarrow> Inr (clientX v)
      | [] \<Rightarrow> (case cs of v # vs \<Rightarrow> Inr (clientX v) | [] \<Rightarrow> Inl TypeError))"
  by (simp add: getX_def touch_branch first_touch_def split: list.splits)

lemma listeners_for_mouse_event:
  "listeners_for m (MouseEvent t x y c) =
     (if isDesktop m
      then [case t of mousedown \<Rightarrow> OnMouseDown | mouseup \<Rightarrow> OnMouseUp
            | mousemove \<Rightarrow> OnMouseMove]
      else [])"
  by (cases t; cases m)
    (simp_all add: listeners_for_def addEventListener_def isDesktop_def isMobile_def)

lemma listeners_for_touch_event:
  "listeners_for m (TouchEvent t ts cs c) =
     (if isMobile m
      then [case t of touchstart \<Rightarrow> OnMouseDown | touchend \<Rightarrow> OnMouseUp
            | touchmove \<Rightarrow> OnMouseMove]
      else [])"
  by (cases t; cases m)
    (simp_all add: listeners_for_def addEventListener_def isDesktop_def isMobile_def)

lemma listeners_for_cases:
  "listeners_for m e = [] \<or> (\<exists>l. listeners_for m e = [l])"
  by (cases e) (simp_all add: listeners_for_mouse_event listeners_for_touch_event)

lemma dispatchEvent_single:
  "listeners_for m e = [l] \<Longrightarrow>
   dispatchEvent m h e = render h (state_of (call l (closure h) e (current h)))"
  by (simp add: dispatchEvent_def)

lemma dispatchEvent_none: "listeners_for m e = [] \<Longrightarrow> dispatchEvent m h e = h"
  by (simp add: dispatchEvent_def)

lemma synced_render: "synced (render h s)"
  by (simp add: synced_def render_def)

lemma current_render: "current (render h s) = s"
  by (simp add: render_def)

lemma synced_dispatchEvent: "synced h \<Longrightarrow> synced (dispatchEvent m h e)"
  using listeners_for_cases [of m e]
  by (auto simp: dispatchEvent_single dispatchEvent_none synced_render)

lemma run_Nil: "run m [] = useMouseDelta"
  by (simp add: run_def)

lemma run_snoc: "run m (es @ [e]) = dispatchEvent m (run m es) e"
  by (simp add: run_def)

text \<open>After every event the handlers' view of the dependencies is the current one.\<close>

lemma synced_run: "synced (run m es)"
proof (induction es rule: rev_induct)
  case Nil
  show ?case by (simp add: run_Nil useMouseDelta_def synced_def)
next
  case (snoc e es)
  then show ?case by (simp add: run_snoc synced_dispatchEvent)
qed

lemma is_move_listeners:
  "is_move e \<Longrightarrow> listeners_for m e = [] \<or> listeners_for m e = [OnMouseMove]"
proof (cases e)
  case (MouseEvent t x y c)
  assume "is_move e"
  with MouseEvent show ?thesis
    by (cases t) (simp_all add: is_move_def listeners_for_mouse_event)
next
  case (TouchEvent t ts cs c)
  assume "is_move e"
  with TouchEvent show ?thesis
    by (cases t) (simp_all add: is_move_def listeners_for_touch_event)
qed

lemmas hook_eval =
  run_def useMouseDelta_def initial_state_def dispatchEvent_def render_def deps_def
  listeners_for_mouse_event listeners_for_touch_event isDesktop_def isMobile_def
  onMouseDown_def onMouseMove_def onMouseUp_def getY_mouse getX_mouse getY_touch
  getX_touch returned_def Let_def

section \<open>The handlers and the re-subscription\<close>

lemma onMouseMove_frame:
  "lastX (state_of (onMouseMove k e s)) = lastX s \<and>
   lastY (state_of (onMouseMove k e s)) = lastY s \<and>
   isMouseDown (state_of (onMouseMove k e s)) = isMouseDown s \<and>
   touchedElement (state_of (onMouseMove k e s)) = touchedElement s"
  by (simp add: onMouseMove_def Let_def split: sum.splits)

lemma onMouseMove_not_pressed: "\<not> isMouseDown k \<Longrightarrow> onMouseMove k e s = Returned s"
  by (simp add: onMouseMove_def)

lemma onMouseMove_pressed:
  "isMouseDown k \<Longrightarrow> getY e = Inr y \<Longrightarrow> getX e = Inr x \<Longrightarrow>
   onMouseMove k e s =
     Returned
       (s\<lparr>goingDown := Some (y - lastY k > deltaY k),
          goingRight := Some (x - lastX k > deltaX k),
          deltaY := y - lastY k,
          deltaX := x - lastX k\<rparr>)"
  by (simp add: onMouseMove_def Let_def)

lemma onMouseDown_ok:
  "getY e = Inr y \<Longrightarrow> getX e = Inr x \<Longrightarrow>
   onMouseDown e s =
     Returned
       (s\<lparr>isMouseDown := True, lastY := y, lastX := x,
          touchedElement := Some (className e)\<rparr>)"
  by (simp add: onMouseDown_def Let_def)

lemma onMouseDown_pressed: "isMouseDown (state_of (onMouseDown e s))"
  by (simp add: onMouseDown_def Let_def split: sum.splits)

lemma onMouseDown_deltas:
  "deltaX (state_of (onMouseDown e s)) = deltaX s \<and>
   deltaY (state_of (onMouseDown e s)) = deltaY s \<and>
   goingDown (state_of (onMouseDown e s)) = goingDown s \<and>
   goingRight (state_of (onMouseDown e s)) = goingRight s"
  by (simp add: onMouseDown_def Let_def split: sum.splits)

lemma synced_fields:
  "synced h \<Longrightarrow>
   isMouseDown (closure h) = isMouseDown (current h) \<and>
   lastY (closure h) = lastY (current h) \<and>
   deltaY (closure h) = deltaY (current h) \<and>
   deltaX (closure h) = deltaX (current h)"
  by (simp add: synced_def deps_def)

lemma rest_dispatchEvent:
  assumes "synced h" and "isMouseDown (current h) \<or> at_rest (current h)"
  shows "isMouseDown (current (dispatchEvent m h e)) \<or> at_rest (current (dispatchEvent m h e))"
proof -
  consider "listeners_for m e = []" | l where "listeners_for m e = [l]"
    using listeners_for_cases [of m e] by blast
  then show ?thesis
  proof cases
    case 1
    with assms show ?thesis by (simp add: dispatchEvent_none)
  next
    case 2
    show ?thesis
    proof (cases l)
      case OnMouseDown
      with 2 show ?thesis
        by (simp add: dispatchEvent_single current_render onMouseDown_pressed)
    next
      case OnMouseUp
      with 2 show ?thesis
        by (simp add: dispatchEvent_single current_render onMouseUp_def at_rest_def)
    next
      case OnMouseMove
      show ?thesis
      proof (cases "isMouseDown (current h)")
        case True
        with 2 OnMouseMove show ?thesis
          by (simp add: dispatchEvent_single current_render onMouseMove_frame)
      next
        case False
        with assms have "\<not> isMouseDown (closure h)" by (simp add: synced_fields)
        with 2 OnMouseMove assms False show ?thesis
          by (simp add: dispatchEvent_single current_render onMouseMove_not_pressed)
      qed
    qed
  qed
qed

lemma rest_run: "isMouseDown (current (run m es)) \<or> at_rest (current (run m es))"
proof (induction es rule: rev_induct)
  case Nil
  show ?case by (simp add: run_Nil useMouseDelta_def initial_state_def at_rest_def)
next
  case (snoc e es)
  then show ?case by (simp add: run_snoc rest_dispatchEvent synced_run)
qed

lemma move_step:
  assumes "is_move e" and "synced h" and "lastX (closure h) = lastX (current h)"
  shows "synced (dispatchEvent m h e) \<and>
         lastX (closure (dispatchEvent m h e)) = lastX (current h) \<and>
         lastX (current (dispatchEvent m h e)) = lastX (current h) \<and>
         lastY (current (dispatchEvent m h e)) = lastY (current h) \<and>
         isMouseDown (current (dispatchEvent m h e)) = isMouseDown (current h)"
proof -
  from assms(1) consider "listeners_for m e = []" | "listeners_for m e = [OnMouseMove]"
    using is_move_listeners [of e m] by blast
  then show ?thesis
  proof cases
    case 1
    with assms show ?thesis by (simp add: dispatchEvent_none)
  next
    case 2
    then have d: "dispatchEvent m h e =
        render h (state_of (onMouseMove (closure h) e (current h)))"
      by (simp add: dispatchEvent_single)
    show ?thesis
      unfolding d using assms(3)
      by (simp add: synced_render current_render onMouseMove_frame) (simp add: render_def onMouseMove_frame)
  qed
qed

lemma moves_keep_origin:
  assumes "\<forall>e \<in> set ms. is_move e" and "synced h"
    and "lastX (closure h) = lastX (current h)"
  shows "synced (foldl (dispatchEvent m) h ms) \<and>
         lastX (closure (foldl (dispatchEvent m) h ms)) = lastX (current h) \<and>
         lastX (current (foldl (dispatchEvent m) h ms)) = lastX (current h) \<and>
         lastY (current (foldl (dispatchEvent m) h ms)) = lastY (current h) \<and>
         isMouseDown (current (foldl (dispatchEvent m) h ms)) = isMouseDown (current h)"
  using assms
proof (induction ms arbitrary: h)
  case Nil
  then show ?case by simp
next
  case (Cons e ms)
  from Cons.prems have mv: "is_move e" and rest: "\<forall>e \<in> set ms. is_move e" by simp_all
  note st = move_step [OF mv Cons.prems(2) Cons.prems(3), of m]
  from st have "lastX (closure (dispatchEvent m h e)) = lastX (current (dispatchEvent m h e))"
    by simp
  with Cons.IH [OF rest, of "dispatchEvent m h e"] st show ?case by simp
qed

lemma press_at_rest:
  assumes "synced h" and "\<not> isMouseDown (current h)"
    and "listeners_for m p = [OnMouseDown]"
  shows "closure (dispatchEvent m h p) = current (dispatchEvent m h p) \<and>
         current (dispatchEvent m h p) = state_of (onMouseDown p (current h))"
proof -
  from assms(1,2) have "\<not> isMouseDown (closure h)" by (simp add: synced_fields)
  then have "deps (state_of (onMouseDown p (current h))) \<noteq> deps (closure h)"
    using onMouseDown_pressed [of p "current h"] by (auto simp: deps_def)
  with assms(3) show ?thesis
    by (simp add: dispatchEvent_single render_def)
qed

lemma filter_noop:
  assumes "\<And>h e. \<not> P e \<Longrightarrow> dispatchEvent m h e = h"
  shows "foldl (dispatchEvent m) h es = foldl (dispatchEvent m) h (filter P es)"
  using assms by (induction es arbitrary: h) simp_all

section \<open>The claims of the specification\<close>

text \<open>
  C1. A move handled while the button is down sets the trend flags by comparing the
  raw delta it has just computed with the delta stored before, and only then
  overwrites the stored delta: \<open>goingDown\<close> becomes \<open>rawDeltaY > deltaY\<close>,
  \<open>goingRight\<close> becomes \<open>rawDeltaX > deltaX\<close>, and the deltas become the raw
  values. The raw values are the event's coordinates minus \<open>lastY\<close> and minus the
  \<open>lastX\<close> the handler closed over. From a press at (0,0), a move to (0,50) gives
  \<open>deltaY = 50\<close> with \<open>goingDown\<close> true, and a further move to (0,30) gives
  \<open>deltaY = 30\<close> with \<open>goingDown\<close> false.
\<close>

theorem C1_trend_compares_before_overwrite:
  assumes "h = run m es" and "isMouseDown (current h)"
    and "listeners_for m e = [OnMouseMove]"
    and "getY e = Inr y" and "getX e = Inr x"
  shows
    "current (dispatchEvent m h e) =
       (current h)
         \<lparr>goingDown := Some (y - lastY (current h) > deltaY (current h)),
          goingRight := Some (x - lastX (closure h) > deltaX (current h)),
          deltaY := y - lastY (current h),
          deltaX := x - lastX (closure h)\<rparr> \<and>
     returned (run both [MouseEvent mousedown 0 0 c, MouseEvent mousemove 0 50 c]) =
       (50, 0, True, Some c, Some True, Some False) \<and>
     returned
       (run both
          [MouseEvent mousedown 0 0 c, MouseEvent mousemove 0 50 c,
           MouseEvent mousemove 0 30 c]) =
       (30, 0, True, Some c, Some False, Some False)"
proof -
  have sy: "synced h" using assms(1) by (simp add: synced_run)
  with assms(2) have pr: "isMouseDown (closure h)" by (simp add: synced_fields)
  have "current (dispatchEvent m h e) = state_of (onMouseMove (closure h) e (current h))"
    using assms(3) by (simp add: dispatchEvent_single current_render)
  also have "\<dots> =
       (current h)
         \<lparr>goingDown := Some (y - lastY (closure h) > deltaY (closure h)),
          goingRight := Some (x - lastX (closure h) > deltaX (closure h)),
          deltaY := y - lastY (closure h),
          deltaX := x - lastX (closure h)\<rparr>"
    by (simp add: onMouseMove_pressed [OF pr assms(4) assms(5)])
  finally have general: "current (dispatchEvent m h e) =
       (current h)
         \<lparr>goingDown := Some (y - lastY (current h) > deltaY (current h)),
          goingRight := Some (x - lastX (closure h) > deltaX (current h)),
          deltaY := y - lastY (current h),
          deltaX := x - lastX (closure h)\<rparr>"
    using synced_fields [OF sy] by simp
  have ex1: "returned (run both [MouseEvent mousedown 0 0 c, MouseEvent mousemove 0 50 c]) =
       (50, 0, True, Some c, Some True, Some False)"
    by (simp add: hook_eval)
  have ex2: "returned
       (run both
          [MouseEvent mousedown 0 0 c, MouseEvent mousemove 0 50 c,
           MouseEvent mousemove 0 30 c]) =
       (30, 0, True, Some c, Some False, Some False)"
    by (simp add: hook_eval)
  from general ex1 ex2 show ?thesis by simp
qed

theorem C1_witness:
  "isMouseDown (current (run both [MouseEvent mousedown 0 0 ''card''])) \<and>
   current
     (dispatchEvent both (run both [MouseEvent mousedown 0 0 ''card''])
        (MouseEvent mousemove 0 50 ''card'')) =
     \<lparr>lastY = 0, lastX = 0, deltaY = 50, deltaX = 0, goingDown = Some True,
      goingRight = Some False, isMouseDown = True, touchedElement = Some ''card''\<rparr>"
proof -
  have a: "isMouseDown (current (run both [MouseEvent mousedown 0 0 ''card'']))"
    by (simp add: hook_eval)
  have b: "listeners_for both (MouseEvent mousemove 0 50 ''card'') = [OnMouseMove]"
    by (simp add: hook_eval)
  have c: "getY (MouseEvent mousemove 0 50 ''card'') = Inr 50"
    by (simp add: getY_mouse)
  have d: "getX (MouseEvent mousemove 0 50 ''card'') = Inr 0"
    by (simp add: getX_mouse)
  from C1_trend_compares_before_overwrite [OF refl a b c d] a show ?thesis
    by (simp add: hook_eval)
qed

text \<open>
  C2. After a press delivered at rest, every later move of the gesture sets
  \<open>deltaX\<close> and \<open>deltaY\<close> to the distance of the pointer from the coordinates
  recorded at the press, whatever moves came in between; the move handler never
  writes the origin. Press at (100,100), move to (120,115), move to (110,105) gives
  \<open>deltaX = 10\<close> and \<open>deltaY = 5\<close>.
\<close>

theorem C2_delta_relative_to_press:
  assumes "h = run m es" and "\<not> isMouseDown (current h)"
    and "listeners_for m p = [OnMouseDown]"
    and "getX p = Inr px" and "getY p = Inr py"
    and "\<forall>e \<in> set ms. is_move e"
    and "listeners_for m e = [OnMouseMove]"
    and "getX e = Inr x" and "getY e = Inr y"
  shows
    "deltaX (current (foldl (dispatchEvent m) (dispatchEvent m h p) (ms @ [e]))) = x - px \<and>
     deltaY (current (foldl (dispatchEvent m) (dispatchEvent m h p) (ms @ [e]))) = y - py \<and>
     lastX (current (foldl (dispatchEvent m) (dispatchEvent m h p) (ms @ [e]))) = px \<and>
     lastY (current (foldl (dispatchEvent m) (dispatchEvent m h p) (ms @ [e]))) = py \<and>
     lastX (state_of (onMouseMove k e' s)) = lastX s \<and>
     lastY (state_of (onMouseMove k e' s)) = lastY s \<and>
     lastX (state_of (onMouseUp s)) = lastX s \<and>
     lastY (state_of (onMouseUp s)) = lastY s \<and>
     returned
       (run both
          [MouseEvent mousedown 100 100 c, MouseEvent mousemove 120 115 c,
           MouseEvent mousemove 110 105 c]) =
       (5, 10, True, Some c, Some False, Some False)"
proof -
  define h1 where "h1 = dispatchEvent m h p"
  define h2 where "h2 = foldl (dispatchEvent m) h1 ms"
  define h3 where "h3 = dispatchEvent m h2 e"
  have sy: "synced h" using assms(1) by (simp add: synced_run)
  from press_at_rest [OF sy assms(2) assms(3)]
  have c1: "closure h1 = current h1"
    and s1: "current h1 = state_of (onMouseDown p (current h))"
    by (simp_all add: h1_def)
  from s1 have f1: "lastX (current h1) = px" "lastY (current h1) = py"
    "isMouseDown (current h1)"
    by (simp_all add: onMouseDown_ok [OF assms(5) assms(4)])
  have sy1: "synced h1" using c1 by (simp add: synced_def)
  from c1 have o1: "lastX (closure h1) = lastX (current h1)" by simp
  from moves_keep_origin [OF assms(6) sy1 o1, of m] f1
  have sy2: "synced h2" and f2: "lastX (closure h2) = px" "lastX (current h2) = px"
    "lastY (current h2) = py" "isMouseDown (current h2)"
    by (simp_all add: h2_def)
  from synced_fields [OF sy2] f2
  have k2: "isMouseDown (closure h2)" "lastY (closure h2) = py" by simp_all
  have "current h3 = state_of (onMouseMove (closure h2) e (current h2))"
    using assms(7) by (simp add: h3_def dispatchEvent_single current_render)
  then have f3: "deltaX (current h3) = x - px" "deltaY (current h3) = y - py"
    "lastX (current h3) = px" "lastY (current h3) = py"
    using f2 k2 by (simp_all add: onMouseMove_pressed [OF k2(1) assms(9) assms(8)])
  have fold: "foldl (dispatchEvent m) (dispatchEvent m h p) (ms @ [e]) = h3"
    by (simp add: h3_def h2_def h1_def)
  have ex: "returned
       (run both
          [MouseEvent mousedown 100 100 c, MouseEvent mousemove 120 115 c,
           MouseEvent mousemove 110 105 c]) =
       (5, 10, True, Some c, Some False, Some False)"
    by (simp add: hook_eval)
  from f3 ex show ?thesis
    unfolding fold by (simp add: onMouseMove_frame onMouseUp_def)
qed

theorem C2_witness:
  "\<not> isMouseDown (current (run mouse [])) \<and>
   deltaX
     (current
        (foldl (dispatchEvent mouse)
           (dispatchEvent mouse (run mouse []) (MouseEvent mousedown 100 100 ''card''))
           ([MouseEvent mousemove 120 115 ''card''] @
            [MouseEvent mousemove 110 105 ''card'']))) = 10 \<and>
   deltaY
     (current
        (foldl (dispatchEvent mouse)
           (dispatchEvent mouse (run mouse []) (MouseEvent mousedown 100 100 ''card''))
           ([MouseEvent mousemove 120 115 ''card''] @
            [MouseEvent mousemove 110 105 ''card'']))) = 5"
proof -
  have a: "\<not> isMouseDown (current (run mouse []))"
    by (simp add: hook_eval)
  have b: "listeners_for mouse (MouseEvent mousedown 100 100 ''card'') = [OnMouseDown]"
    by (simp add: hook_eval)
  have c: "getX (MouseEvent mousedown 100 100 ''card'') = Inr 100"
    by (simp add: getX_mouse)
  have d: "getY (MouseEvent mousedown 100 100 ''card'') = Inr 100"
    by (simp add: getY_mouse)
  have e: "\<forall>e \<in> set [MouseEvent mousemove 120 115 ''card'']. is_move e"
    by (simp add: is_move_def)
  have f: "listeners_for mouse (MouseEvent mousemove 110 105 ''card'') = [OnMouseMove]"
    by (simp add: hook_eval)
  have g: "getX (MouseEvent mousemove 110 105 ''card'') = Inr 110"
    by (simp add: getX_mouse)
  have i: "getY (MouseEvent mousemove 110 105 ''card'') = Inr 105"
    by (simp add: getY_mouse)
  from C2_delta_relative_to_press [OF refl a b c d e f g i] a show ?thesis
    by simp
qed

text \<open>
  C3. In every state the hook reaches from its initial state by any sequence of
  events, in any mode: when \<open>isMouseDown\<close> is false, \<open>deltaX\<close> and \<open>deltaY\<close> are 0
  and both trend flags are unset. And a release that is delivered leaves the
  snapshot at \<open>deltaX = 0\<close>, \<open>deltaY = 0\<close>, \<open>isMouseDown = false\<close>, both flags unset.
\<close>

theorem C3_at_rest_invariant:
  "(\<not> isMouseDown (current (run m es)) \<longrightarrow>
      deltaX (current (run m es)) = 0 \<and> deltaY (current (run m es)) = 0 \<and>
      goingDown (current (run m es)) = None \<and>
      goingRight (current (run m es)) = None) \<and>
   (listeners_for m e = [OnMouseUp] \<longrightarrow>
      returned (run m (es @ [e])) =
        (0, 0, False, touchedElement (current (run m es)), None, None))"
proof -
  have inv: "\<not> isMouseDown (current (run m es)) \<longrightarrow> at_rest (current (run m es))"
    using rest_run [of m es] by blast
  have rel: "returned (run m (es @ [e])) =
      (0, 0, False, touchedElement (current (run m es)), None, None)"
    if "listeners_for m e = [OnMouseUp]"
    using that
    by (simp add: run_snoc dispatchEvent_single returned_def current_render onMouseUp_def)
  from inv rel show ?thesis by (simp add: at_rest_def)
qed

theorem C3_witness:
  "\<not> isMouseDown
       (current
          (run both
             [MouseEvent mousedown 3 4 ''card'', MouseEvent mousemove 8 1 ''card'',
              MouseEvent mouseup 8 1 ''card''])) \<and>
   deltaX
     (current
        (run both
           [MouseEvent mousedown 3 4 ''card'', MouseEvent mousemove 8 1 ''card'',
            MouseEvent mouseup 8 1 ''card''])) = 0 \<and>
   returned
     (run both
        ([MouseEvent mousedown 3 4 ''card'', MouseEvent mousemove 8 1 ''card''] @
         [MouseEvent mouseup 8 1 ''card''])) =
     (0, 0, False, Some ''card'', None, None)"
proof -
  have a: "\<not> isMouseDown
       (current
          (run both
             [MouseEvent mousedown 3 4 ''card'', MouseEvent mousemove 8 1 ''card'',
              MouseEvent mouseup 8 1 ''card'']))"
    by (simp add: hook_eval)
  have b: "listeners_for both (MouseEvent mouseup 8 1 ''card'') = [OnMouseUp]"
    by (simp add: hook_eval)
  have c: "touchedElement
      (current
         (run both [MouseEvent mousedown 3 4 ''card'', MouseEvent mousemove 8 1 ''card''])) =
      Some ''card''"
    by (simp add: hook_eval)
  from C3_at_rest_invariant
         [of both
            "[MouseEvent mousedown 3 4 ''card'', MouseEvent mousemove 8 1 ''card'',
              MouseEvent mouseup 8 1 ''card'']"
            "MouseEvent mouseup 8 1 ''card''"]
       C3_at_rest_invariant
         [of both
            "[MouseEvent mousedown 3 4 ''card'', MouseEvent mousemove 8 1 ''card'']"
            "MouseEvent mouseup 8 1 ''card''"]
       a b c
  show ?thesis by simp
qed

text \<open>
  C4, as stated, fails at its second snapshot: after the touch-start at (50,50) and
  the touch-move to (50,0) the raw vertical delta is \<open>- 50\<close>, which is not greater
  than the stored 0, so \<open>goingDown\<close> is false, not true.
\<close>

theorem C4_touch_scenario_counterexample:
  "returned
     (run both
        [TouchEvent touchstart [\<lparr>clientX = 50, clientY = 50\<rparr>]
           [\<lparr>clientX = 50, clientY = 50\<rparr>] ''card'',
         TouchEvent touchmove [\<lparr>clientX = 50, clientY = 0\<rparr>]
           [\<lparr>clientX = 50, clientY = 0\<rparr>] ''card'']) \<noteq>
   (- 50, 0, True, Some ''card'', Some True, Some False)"
  by (simp add: hook_eval)

text \<open>
  C4, amended. In mode \<open>both\<close>: touch-start at (50,50) on "card" gives the snapshot
  (deltaY 0, deltaX 0, isMouseDown true, touchedElement "card", flags unset); the
  touch-move to (50,0) gives (deltaY -50, deltaX 0, isMouseDown true, "card",
  goingDown false, goingRight false); the touch-end gives (deltaY 0, deltaX 0,
  isMouseDown false, "card", flags unset). Snapshots list the fields in the order
  of the hook's return value.
\<close>

theorem C4_touch_scenario:
  "returned
     (run both
        [TouchEvent touchstart [\<lparr>clientX = 50, clientY = 50\<rparr>]
           [\<lparr>clientX = 50, clientY = 50\<rparr>] ''card'']) =
     (0, 0, True, Some ''card'', None, None) \<and>
   returned
     (run both
        [TouchEvent touchstart [\<lparr>clientX = 50, clientY = 50\<rparr>]
           [\<lparr>clientX = 50, clientY = 50\<rparr>] ''card'',
         TouchEvent touchmove [\<lparr>clientX = 50, clientY = 0\<rparr>]
           [\<lparr>clientX = 50, clientY = 0\<rparr>] ''card'']) =
     (- 50, 0, True, Some ''card'', Some False, Some False) \<and>
   returned
     (run both
        [TouchEvent touchstart [\<lparr>clientX = 50, clientY = 50\<rparr>]
           [\<lparr>clientX = 50, clientY = 50\<rparr>] ''card'',
         TouchEvent touchmove [\<lparr>clientX = 50, clientY = 0\<rparr>]
           [\<lparr>clientX = 50, clientY = 0\<rparr>] ''card'',
         TouchEvent touchend [] [\<lparr>clientX = 50, clientY = 0\<rparr>] ''card'']) =
     (0, 0, False, Some ''card'', None, None)"
  by (simp add: hook_eval)

text \<open>
  C5. A move event that arrives while \<open>isMouseDown\<close> is false changes nothing: the
  move handler returns the state as it was, and the whole hook (state cells and
  the handlers' view) is the same after the event.
\<close>

theorem C5_move_while_released_is_noop:
  assumes "h = run m es" and "\<not> isMouseDown (current h)" and "is_move e"
  shows "dispatchEvent m h e = h \<and>
         onMouseMove (closure h) e (current h) = Returned (current h)"
proof -
  have sy: "synced h" using assms(1) by (simp add: synced_run)
  with assms(2) have np: "\<not> isMouseDown (closure h)" by (simp add: synced_fields)
  then have noop: "onMouseMove (closure h) e (current h) = Returned (current h)"
    by (rule onMouseMove_not_pressed)
  from sy have same: "render h (current h) = h"
    by (simp add: render_def synced_def)
  from assms(3) consider "listeners_for m e = []" | "listeners_for m e = [OnMouseMove]"
    using is_move_listeners [of e m] by blast
  then have "dispatchEvent m h e = h"
  proof cases
    case 1
    then show ?thesis by (rule dispatchEvent_none)
  next
    case 2
    then show ?thesis by (simp add: dispatchEvent_single noop same)
  qed
  with noop show ?thesis by simp
qed

theorem C5_witness:
  "\<not> isMouseDown
       (current (run both [MouseEvent mousedown 3 4 ''card'', MouseEvent mouseup 3 4 ''card''])) \<and>
   is_move (MouseEvent mousemove 9 9 ''card'') \<and>
   dispatchEvent both
     (run both [MouseEvent mousedown 3 4 ''card'', MouseEvent mouseup 3 4 ''card''])
     (MouseEvent mousemove 9 9 ''card'') =
   run both [MouseEvent mousedown 3 4 ''card'', MouseEvent mouseup 3 4 ''card'']"
proof -
  have a: "\<not> isMouseDown
       (current (run both [MouseEvent mousedown 3 4 ''card'', MouseEvent mouseup 3 4 ''card'']))"
    by (simp add: hook_eval)
  have b: "is_move (MouseEvent mousemove 9 9 ''card'')"
    by (simp add: is_move_def)
  from C5_move_while_released_is_noop [OF refl a b] a b show ?thesis by simp
qed

text \<open>
  C6. A press delivered at rest, carrying coordinates, leaves \<open>deltaX = 0\<close>,
  \<open>deltaY = 0\<close>, \<open>isMouseDown = true\<close>, \<open>touchedElement\<close> the class name of the
  event's target and both trend flags unset, with the origin at the press point;
  the press handler writes \<open>isMouseDown\<close>, \<open>lastY\<close>, \<open>lastX\<close> and
  \<open>touchedElement\<close> and nothing else.
\<close>

theorem C6_press_at_rest:
  assumes "h = run m es" and "\<not> isMouseDown (current h)"
    and "listeners_for m e = [OnMouseDown]"
    and "getX e = Inr x" and "getY e = Inr y"
  shows
    "current (dispatchEvent m h e) =
       \<lparr>lastY = y, lastX = x, deltaY = 0, deltaX = 0, goingDown = None,
        goingRight = None, isMouseDown = True,
        touchedElement = Some (className e)\<rparr> \<and>
     onMouseDown e s =
       Returned
         (s\<lparr>isMouseDown := True, lastY := y, lastX := x,
            touchedElement := Some (className e)\<rparr>)"
proof -
  from assms(1,2) have r: "at_rest (current h)"
    using rest_run [of m es] by blast
  have "current (dispatchEvent m h e) = state_of (onMouseDown e (current h))"
    using assms(3) by (simp add: dispatchEvent_single current_render)
  then have "current (dispatchEvent m h e) =
      (current h)\<lparr>isMouseDown := True, lastY := y, lastX := x,
                  touchedElement := Some (className e)\<rparr>"
    by (simp add: onMouseDown_ok [OF assms(5) assms(4)])
  with r have "current (dispatchEvent m h e) =
       \<lparr>lastY = y, lastX = x, deltaY = 0, deltaX = 0, goingDown = None,
        goingRight = None, isMouseDown = True,
        touchedElement = Some (className e)\<rparr>"
    by (cases "current h") (simp add: at_rest_def)
  then show ?thesis
    by (simp add: onMouseDown_ok [OF assms(5) assms(4)])
qed

theorem C6_witness:
  "\<not> isMouseDown (current (run touch [])) \<and>
   current
     (dispatchEvent touch (run touch [])
        (TouchEvent touchstart [\<lparr>clientX = 7, clientY = 9\<rparr>]
           [\<lparr>clientX = 7, clientY = 9\<rparr>] ''card'')) =
     \<lparr>lastY = 9, lastX = 7, deltaY = 0, deltaX = 0, goingDown = None,
      goingRight = None, isMouseDown = True, touchedElement = Some ''card''\<rparr>"
proof -
  have a: "\<not> isMouseDown (current (run touch []))"
    by (simp add: hook_eval)
  have b: "listeners_for touch
      (TouchEvent touchstart [\<lparr>clientX = 7, clientY = 9\<rparr>]
         [\<lparr>clientX = 7, clientY = 9\<rparr>] ''card'') = [OnMouseDown]"
    by (simp add: hook_eval)
  have c: "getX
      (TouchEvent touchstart [\<lparr>clientX = 7, clientY = 9\<rparr>]
         [\<lparr>clientX = 7, clientY = 9\<rparr>] ''card'') = Inr 7"
    by (simp add: getX_touch)
  have d: "getY
      (TouchEvent touchstart [\<lparr>clientX = 7, clientY = 9\<rparr>]
         [\<lparr>clientX = 7, clientY = 9\<rparr>] ''card'') = Inr 9"
    by (simp add: getY_touch)
  from C6_press_at_rest [OF refl a b c d] a show ?thesis by simp
qed

text \<open>
  C7. The release handler sets \<open>isMouseDown\<close> to false, both deltas to 0 and both
  trend flags to unset, and leaves \<open>touchedElement\<close>, \<open>lastX\<close> and \<open>lastY\<close> as they
  were; a mouse-up or touch-end the mode listens to does exactly that to the
  state. The move handler does not write these three fields either, so they stay
  until a press.
\<close>

theorem C7_release_frame:
  "onMouseUp s =
     Returned
       \<lparr>lastY = lastY s, lastX = lastX s, deltaY = 0, deltaX = 0, goingDown = None,
        goingRight = None, isMouseDown = False, touchedElement = touchedElement s\<rparr> \<and>
   current (dispatchEvent m h (MouseEvent mouseup x y c)) =
     (if isDesktop m then state_of (onMouseUp (current h)) else current h) \<and>
   current (dispatchEvent m h (TouchEvent touchend ts cs c)) =
     (if isMobile m then state_of (onMouseUp (current h)) else current h) \<and>
   touchedElement (state_of (onMouseMove k e s)) = touchedElement s \<and>
   lastX (state_of (onMouseMove k e s)) = lastX s \<and>
   lastY (state_of (onMouseMove k e s)) = lastY s"
proof -
  have up: "onMouseUp s =
     Returned
       \<lparr>lastY = lastY s, lastX = lastX s, deltaY = 0, deltaX = 0, goingDown = None,
        goingRight = None, isMouseDown = False, touchedElement = touchedElement s\<rparr>"
    by (cases s) (simp add: onMouseUp_def)
  have ms: "current (dispatchEvent m h (MouseEvent mouseup x y c)) =
     (if isDesktop m then state_of (onMouseUp (current h)) else current h)"
    by (simp add: dispatchEvent_def listeners_for_mouse_event current_render)
  have tc: "current (dispatchEvent m h (TouchEvent touchend ts cs c)) =
     (if isMobile m then state_of (onMouseUp (current h)) else current h)"
    by (simp add: dispatchEvent_def listeners_for_touch_event current_render)
  from up ms tc show ?thesis
    by (simp only: onMouseMove_frame simp_thms)
qed

text \<open>Events of the class a mode does not subscribe to find no listener.\<close>

lemma mouse_mode_ignores_touch: "\<not> is_mouse e \<Longrightarrow> dispatchEvent mouse h e = h"
  by (cases e)
    (simp_all add: is_mouse_def touch_branch dispatchEvent_def listeners_for_touch_event
      isMobile_def)

lemma touch_mode_ignores_mouse: "\<not> is_touch e \<Longrightarrow> dispatchEvent touch h e = h"
  by (cases e)
    (simp_all add: is_touch_def touch_branch dispatchEvent_def listeners_for_mouse_event
      isDesktop_def)

text \<open>
  C8. In mode \<open>mouse\<close> a touch event changes nothing, in mode \<open>touch\<close> a mouse
  event changes nothing, so a run in either mode is the run of the events of its
  own class alone. In mode \<open>both\<close> every event finds exactly one listener, the
  same handler for the mouse and the touch event of a kind, and both classes
  write the same state: a touch press followed by a mouse move yields the deltas
  of the mouse position from the touch point.
\<close>

theorem C8_mode_selects_event_class:
  "dispatchEvent mouse h (TouchEvent tt ts cs c) = h \<and>
   dispatchEvent touch h (MouseEvent mt x y c) = h \<and>
   run mouse es = run mouse (filter is_mouse es) \<and>
   run touch es = run touch (filter is_touch es) \<and>
   listeners_for both (MouseEvent mousedown x y c) = [OnMouseDown] \<and>
   listeners_for both (TouchEvent touchstart ts cs c) = [OnMouseDown] \<and>
   listeners_for both (MouseEvent mousemove x y c) = [OnMouseMove] \<and>
   listeners_for both (TouchEvent touchmove ts cs c) = [OnMouseMove] \<and>
   listeners_for both (MouseEvent mouseup x y c) = [OnMouseUp] \<and>
   listeners_for both (TouchEvent touchend ts cs c) = [OnMouseUp] \<and>
   (\<exists>l. listeners_for both e = [l] \<and>
        dispatchEvent both h e =
          render h (state_of (call l (closure h) e (current h)))) \<and>
   returned
     (run both
        [TouchEvent touchstart [\<lparr>clientX = 1, clientY = 2\<rparr>]
           [\<lparr>clientX = 1, clientY = 2\<rparr>] c,
         MouseEvent mousemove 6 9 c]) =
     (7, 5, True, Some c, Some True, Some True)"
proof -
  have a: "dispatchEvent mouse h (TouchEvent tt ts cs c) = h"
    by (simp add: dispatchEvent_def listeners_for_touch_event isMobile_def)
  have b: "dispatchEvent touch h (MouseEvent mt x y c) = h"
    by (simp add: dispatchEvent_def listeners_for_mouse_event isDesktop_def)
  have f1: "run mouse es = run mouse (filter is_mouse es)"
    unfolding run_def by (rule filter_noop) (rule mouse_mode_ignores_touch)
  have f2: "run touch es = run touch (filter is_touch es)"
    unfolding run_def by (rule filter_noop) (rule touch_mode_ignores_mouse)
  have ls: "listeners_for both (MouseEvent mousedown x y c) = [OnMouseDown]"
    "listeners_for both (TouchEvent touchstart ts cs c) = [OnMouseDown]"
    "listeners_for both (MouseEvent mousemove x y c) = [OnMouseMove]"
    "listeners_for both (TouchEvent touchmove ts cs c) = [OnMouseMove]"
    "listeners_for both (MouseEvent mouseup x y c) = [OnMouseUp]"
    "listeners_for both (TouchEvent touchend ts cs c) = [OnMouseUp]"
    by (simp_all add: listeners_for_mouse_event listeners_for_touch_event
        isDesktop_def isMobile_def)
  have "\<exists>l. listeners_for both e = [l]"
    by (cases e)
      (simp_all add: listeners_for_mouse_event listeners_for_touch_event
        isDesktop_def isMobile_def)
  then have g: "\<exists>l. listeners_for both e = [l] \<and>
        dispatchEvent both h e =
          render h (state_of (call l (closure h) e (current h)))"
    by (auto simp: dispatchEvent_single)
  have ex: "returned
     (run both
        [TouchEvent touchstart [\<lparr>clientX = 1, clientY = 2\<rparr>]
           [\<lparr>clientX = 1, clientY = 2\<rparr>] c,
         MouseEvent mousemove 6 9 c]) =
     (7, 5, True, Some c, Some True, Some True)"
    by (simp add: hook_eval)
  from a b f1 f2 ls g ex show ?thesis by (simp only: simp_thms)
qed

text \<open>
  C9. For a touch event the extractors read the first active touch, and the first
  changed touch when no touch is active; when at least one of the two lists is
  non-empty they return a coordinate and do not throw (they throw exactly when
  both are empty). For a mouse event they return the event's \<open>y\<close> and \<open>x\<close>.
\<close>

theorem C9_coordinate_extraction:
  "getY (TouchEvent t (v # vs) cs c) = Inr (clientY v) \<and>
   getX (TouchEvent t (v # vs) cs c) = Inr (clientX v) \<and>
   getY (TouchEvent t [] (w # ws) c) = Inr (clientY w) \<and>
   getX (TouchEvent t [] (w # ws) c) = Inr (clientX w) \<and>
   (ts \<noteq> [] \<or> cs' \<noteq> [] \<longrightarrow>
      (\<exists>a. getY (TouchEvent t ts cs' c) = Inr a) \<and>
      (\<exists>b. getX (TouchEvent t ts cs' c) = Inr b)) \<and>
   getY (TouchEvent t [] [] c) = Inl TypeError \<and>
   getX (TouchEvent t [] [] c) = Inl TypeError \<and>
   getY (MouseEvent mt x y c) = Inr y \<and>
   getX (MouseEvent mt x y c) = Inr x"
  by (simp add: getY_touch getX_touch getY_mouse getX_mouse split: list.splits)

theorem C9_witness:
  "[\<lparr>clientX = 3, clientY = 4\<rparr>] \<noteq> [] \<and>
   (\<exists>a. getY (TouchEvent touchend [] [\<lparr>clientX = 3, clientY = 4\<rparr>] ''card'') = Inr a) \<and>
   (\<exists>b. getX (TouchEvent touchend [] [\<lparr>clientX = 3, clientY = 4\<rparr>] ''card'') = Inr b)"
proof -
  have a: "([] :: touch_point list) \<noteq> [] \<or> [\<lparr>clientX = 3, clientY = 4\<rparr>] \<noteq> []"
    by simp
  from C9_coordinate_extraction
         [where ts = "[]" and cs' = "[\<lparr>clientX = 3, clientY = 4\<rparr>]" and t = touchend
            and c = "''card''"] a
  show ?thesis by blast
qed

text \<open>
  A second press without a release in between: the press handler rewrites the
  origin and \<open>touchedElement\<close> and leaves the deltas and trend flags alone. The
  effect re-subscribes after it only when \<open>lastY\<close> has changed, \<open>lastX\<close> not being
  among its dependencies.
\<close>

lemma onMouseDown_while_pressed:
  assumes "isMouseDown s" and "getY e = Inr y" and "getX e = Inr x"
  shows "onMouseDown e s =
           Returned (s\<lparr>lastY := y, lastX := x, touchedElement := Some (className e)\<rparr>)"
  using assms(1) by (cases s) (simp add: onMouseDown_ok [OF assms(2) assms(3)])

lemma second_press_resubscribes:
  assumes "synced h" and "listeners_for m p = [OnMouseDown]"
    and "getY p = Inr y" and "getX p = Inr x" and "y \<noteq> lastY (current h)"
  shows "closure (dispatchEvent m h p) = current (dispatchEvent m h p)"
proof -
  from assms(1) have "lastY (closure h) = lastY (current h)"
    by (simp add: synced_fields)
  with assms(5) have "deps (state_of (onMouseDown p (current h))) \<noteq> deps (closure h)"
    by (simp add: deps_def onMouseDown_ok [OF assms(3) assms(4)])
  with assms(2) show ?thesis
    by (simp add: dispatchEvent_single render_def)
qed

text \<open>
  C10. After a second press the next move should recompute the deltas against the
  new origin. Press at (0,0), drag to (10,0), press again there, move to (12,0):
  after the second press the state holds the new origin \<open>lastX = 10\<close> with the
  deltas and flags of the drag carried over, while the registered move handler
  still holds \<open>lastX = 0\<close>; the move to (12,0), two to the right of the new press
  point, reports \<open>deltaX = 12\<close>. Only the move after that, at the same position,
  reports \<open>deltaX = 2\<close>.
\<close>

theorem C10_second_press_stale_origin:
  "current
     (run both
        [MouseEvent mousedown 0 0 ''card'', MouseEvent mousemove 10 0 ''card'',
         MouseEvent mousedown 10 0 ''card'']) =
     \<lparr>lastY = 0, lastX = 10, deltaY = 0, deltaX = 10, goingDown = Some False,
      goingRight = Some True, isMouseDown = True, touchedElement = Some ''card''\<rparr> \<and>
   lastX
     (closure
        (run both
           [MouseEvent mousedown 0 0 ''card'', MouseEvent mousemove 10 0 ''card'',
            MouseEvent mousedown 10 0 ''card''])) = 0 \<and>
   returned
     (run both
        [MouseEvent mousedown 0 0 ''card'', MouseEvent mousemove 10 0 ''card'',
         MouseEvent mousedown 10 0 ''card'', MouseEvent mousemove 12 0 ''card'']) =
     (0, 12, True, Some ''card'', Some False, Some True) \<and>
   returned
     (run both
        [MouseEvent mousedown 0 0 ''card'', MouseEvent mousemove 10 0 ''card'',
         MouseEvent mousedown 10 0 ''card'', MouseEvent mousemove 12 0 ''card'',
         MouseEvent mousemove 12 0 ''card'']) =
     (0, 2, True, Some ''card'', Some False, Some False)"
  by (simp add: hook_eval)

end
